theory Spec2Isabelle
  imports Complex_Main "HOL-Library.Sublist" "HOL-Library.Product_Lexorder"
begin

section \<open>The semantic-search edge function and the match\_members database function\<close>

text \<open>
  The development embeds \<^verbatim>\<open>supabase/functions/semantic-search/index.ts\<close> and, from the
  migration \<^verbatim>\<open>20250626110138_young_moon.sql\<close>, the SQL function \<^verbatim>\<open>match_members\<close> and the
  trigger function \<^verbatim>\<open>generate_member_embedding\<close>.

  Conventions of the embedding:
  \<^item> a JavaScript string is the list of its UTF-16 code units (integers from 0 to
    65535), so that \<open>length\<close> is \<open>.length\<close>; \<open>js\<close> turns an ASCII literal into
    such a list;
  \<^item> a JavaScript number is a rational, \<open>NaN\<close> or an infinity (\<open>0.2\<close> is \<open>1/5\<close>); a
    PostgreSQL \<open>float\<close> is a rational or \<open>NaN\<close>. Rounding of doubles is not represented;
  \<^item> a \<open>throw\<close> is the \<open>Inl\<close> branch of a sum; every call of a hosted service returns
    its reply together with the record of the call, and a function returns the records
    of the calls it made, in order;
  \<^item> what lies outside the repository is a parameter: the embedding model, the
    PostgREST query on \<open>members\<close>, pgvector's operator \<open><=>\<close>, the clock, and the
    built-ins \<open>String.prototype.toLowerCase\<close> and \<open>ToNumber\<close> on strings, arrays
    and objects.
\<close>

subsection \<open>Values\<close>

type_synonym jsstring = "int list"

definition js :: "string \<Rightarrow> jsstring" where
  "js s = map of_char s"

type_synonym vec = "rat list"

text \<open>A thrown value: an instance of \<open>Error\<close> with its message, or any other object
  (the \<open>error\<close> member of a Supabase reply).\<close>

datatype js_error = Error string | ErrorObject string

text \<open>A value as \<open>JSON.parse\<close> gives it, or \<open>undefined\<close> for a property that is
  absent. A number literal beyond the range of the doubles is read as an infinity:
  \<open>JInfinity True\<close> is \<open>Infinity\<close> and \<open>JInfinity False\<close> is \<open>-Infinity\<close>.\<close>

datatype jsval =
    JUndefined
  | JNull
  | JBool bool
  | JNum rat
  | JInfinity bool
  | JStr jsstring
  | JArray "jsval list"
  | JObject "(jsstring \<times> jsval) list"

fun truthy :: "jsval \<Rightarrow> bool" where
  "truthy JUndefined = False"
| "truthy JNull = False"
| "truthy (JBool b) = b"
| "truthy (JNum r) = (r \<noteq> 0)"
| "truthy (JInfinity positive) = True"
| "truthy (JStr s) = (s \<noteq> [])"
| "truthy (JArray xs) = True"
| "truthy (JObject kvs) = True"

text \<open>\<open>a || b\<close>.\<close>

definition js_or :: "jsval \<Rightarrow> jsval \<Rightarrow> jsval" where
  "js_or a b = (if truthy a then a else b)"

fun is_string :: "jsval \<Rightarrow> bool" where
  "is_string (JStr s) = True"
| "is_string v = False"

fun string_of :: "jsval \<Rightarrow> jsstring" where
  "string_of (JStr s) = s"
| "string_of v = []"

datatype jsnum = Num rat | PosInf | NegInf | NaN

text \<open>\<open>ToNumber\<close>: fixed on \<open>undefined\<close>, \<open>null\<close>, booleans and numbers; on strings,
  arrays and objects it is the parameter \<open>tn\<close>.\<close>

fun to_number :: "(jsval \<Rightarrow> jsnum) \<Rightarrow> jsval \<Rightarrow> jsnum" where
  "to_number tn JUndefined = NaN"
| "to_number tn JNull = Num 0"
| "to_number tn (JBool b) = Num (if b then 1 else 0)"
| "to_number tn (JNum r) = Num r"
| "to_number tn (JInfinity positive) = (if positive then PosInf else NegInf)"
| "to_number tn v = tn v"

text \<open>\<open>Math.min(x, b)\<close> for a finite \<open>b\<close>.\<close>

fun math_min :: "jsnum \<Rightarrow> rat \<Rightarrow> jsnum" where
  "math_min (Num a) b = Num (min a b)"
| "math_min PosInf b = Num b"
| "math_min NegInf b = NegInf"
| "math_min NaN b = NaN"

subsection \<open>Strings\<close>

text \<open>The code units that \<open>trim\<close> strips: the white space and line terminators of
  ECMAScript (TAB, LF, VT, FF, CR, SP, U+00A0, U+1680, U+2000 to U+200A, U+2028,
  U+2029, U+202F, U+205F, U+3000, U+FEFF).\<close>

definition is_space :: "int \<Rightarrow> bool" where
  "is_space c =
     (c \<in> {9, 10, 11, 12, 13, 32, 160, 5760, 8232, 8233, 8239, 8287, 12288, 65279}
      \<or> (8192 \<le> c \<and> c \<le> 8202))"

definition trim :: "jsstring \<Rightarrow> jsstring" where
  "trim s = rev (dropWhile is_space (rev (dropWhile is_space s)))"

text \<open>\<open>s.split(sep)\<close> for a separator of one code unit: \<open>''''.split(' ')\<close> is
  \<open>['''']\<close>.\<close>

fun split :: "int \<Rightarrow> jsstring \<Rightarrow> jsstring list" where
  "split sep [] = [[]]"
| "split sep (c # cs) =
     (if c = sep then [] # split sep cs
      else (case split sep cs of w # ws \<Rightarrow> (c # w) # ws | [] \<Rightarrow> [[c]]))"

text \<open>\<open>xs.join(sep)\<close>.\<close>

fun join :: "jsstring \<Rightarrow> jsstring list \<Rightarrow> jsstring" where
  "join sep [] = []"
| "join sep [x] = x"
| "join sep (x # y # ys) = x @ sep @ join sep (y # ys)"

text \<open>\<open>s.includes(t)\<close>: \<open>t\<close> occurs in \<open>s\<close> as a contiguous run of code units.\<close>

fun str_includes :: "jsstring \<Rightarrow> jsstring \<Rightarrow> bool" where
  "str_includes [] t = (t = [])"
| "str_includes (c # cs) t = (prefix t (c # cs) \<or> str_includes cs t)"

subsection \<open>Members, results and the Supabase client\<close>

record member =
  id' :: int
  name :: jsstring
  email :: jsstring
  role :: jsstring
  description :: "jsstring option"
  skills :: "jsstring list option"
  profile_picture :: "jsstring option"
  team :: "jsstring option"

text \<open>The interface declares \<open>similarity_score: number\<close>; the field holds whatever
  value the code stores in it.\<close>

record search_result = member +
  similarity_score :: jsval

text \<open>A row of the reply of \<open>match_members\<close>, as the handler reads it: \<open>match_score\<close>
  and \<open>distance\<close> are JSON values.\<close>

record match_row = member +
  match_score :: jsval
  distance :: jsval

text \<open>The client: each call answers with \<open>{data, error}\<close>. \<open>rpc_match_members\<close> is
  \<open>rpc('match_members', {query_embedding, match_count, similarity_threshold})\<close>;
  \<open>select_members f n\<close> is the query \<open>from('members').select(...)\<close> with the filter
  \<open>.or(f)\<close> when \<open>f\<close> is given, \<open>.limit(n)\<close> and \<open>.order('name')\<close>.\<close>

record supabase =
  rpc_match_members :: "vec \<Rightarrow> jsnum \<Rightarrow> rat \<Rightarrow> match_row list option \<times> js_error option"
  select_members :: "jsstring option \<Rightarrow> jsnum \<Rightarrow> member list option \<times> js_error option"

datatype backend_call =
    AiRun jsstring
  | RpcMatchMembers vec jsnum rat
  | SelectMembers "jsstring option" jsnum

text \<open>A call of a service: its reply and the record of the call.\<close>

definition model_run ::
  "(jsstring \<Rightarrow> js_error + vec) \<Rightarrow> jsstring \<Rightarrow> (js_error + vec) \<times> backend_call list" where
  "model_run ai txt = (ai txt, [AiRun txt])"

definition rpc_call ::
  "supabase \<Rightarrow> vec \<Rightarrow> jsnum \<Rightarrow> rat
     \<Rightarrow> (match_row list option \<times> js_error option) \<times> backend_call list" where
  "rpc_call sb q n th = (rpc_match_members sb q n th, [RpcMatchMembers q n th])"

definition select_call ::
  "supabase \<Rightarrow> jsstring option \<Rightarrow> jsnum
     \<Rightarrow> (member list option \<times> js_error option) \<times> backend_call list" where
  "select_call sb f n = (select_members sb f n, [SelectMembers f n])"

subsection \<open>generateEmbedding and performSemanticSearch\<close>

definition generateEmbedding ::
  "(jsstring \<Rightarrow> js_error + vec) \<Rightarrow> jsstring \<Rightarrow> (js_error + vec) \<times> backend_call list" where
  "generateEmbedding ai txt =
     (case model_run ai txt of
        (Inl e, tr) \<Rightarrow> (Inl (Error ''Failed to generate embedding''), tr)
      | (Inr output, tr) \<Rightarrow> (Inr output, tr))"

text \<open>\<open>match.skills || []\<close> (an array is truthy) and
  \<open>match.team ? {name: match.team} : undefined\<close>.\<close>

definition skills_or_empty :: "jsstring list option \<Rightarrow> jsstring list" where
  "skills_or_empty s = (case s of None \<Rightarrow> [] | Some xs \<Rightarrow> xs)"

definition team_of_match :: "jsstring option \<Rightarrow> jsstring option" where
  "team_of_match t = (case t of None \<Rightarrow> None | Some n \<Rightarrow> if n = [] then None else Some n)"

definition result_of_match :: "match_row \<Rightarrow> search_result" where
  "result_of_match match =
     \<lparr>id' = id' match, name = name match, email = email match, role = role match,
      description = description match, skills = Some (skills_or_empty (skills match)),
      profile_picture = profile_picture match, team = team_of_match (team match),
      similarity_score = js_or (match_score match) (JNum 0)\<rparr>"

definition performSemanticSearch ::
  "(jsstring \<Rightarrow> js_error + vec) \<Rightarrow> supabase \<Rightarrow> jsstring \<Rightarrow> jsnum
     \<Rightarrow> (js_error + search_result list) \<times> backend_call list" where
  "performSemanticSearch ai sb query limit =
     (case generateEmbedding ai query of
        (Inl e, tr) \<Rightarrow> (Inl e, tr)
      | (Inr queryEmbedding, tr) \<Rightarrow>
          (case rpc_call sb queryEmbedding limit (1/10) of
             ((matches, Some error), tr2) \<Rightarrow> (Inl error, tr @ tr2)
           | ((None, None), tr2) \<Rightarrow> (Inr [], tr @ tr2)
           | ((Some ms, None), tr2) \<Rightarrow>
               if length ms = 0 then (Inr [], tr @ tr2)
               else (Inr (map result_of_match ms), tr @ tr2)))"

subsection \<open>performTextSearch\<close>

text \<open>The first parameter \<open>lc\<close> of the functions below is \<open>toLowerCase\<close>.\<close>

definition searchTerms :: "(jsstring \<Rightarrow> jsstring) \<Rightarrow> jsstring \<Rightarrow> jsstring list" where
  "searchTerms lc query = filter (\<lambda>term. length term > 2) (split 32 (lc query))"

definition orConditions :: "jsstring list \<Rightarrow> jsstring list" where
  "orConditions terms =
     concat (map (\<lambda>term.
       [js ''name.ilike.%'' @ term @ js ''%'',
        js ''role.ilike.%'' @ term @ js ''%'',
        js ''description.ilike.%'' @ term @ js ''%'',
        js ''skills.cs.{'' @ term @ js ''}'']) terms)"

text \<open>The argument of \<open>.or(...)\<close>, or \<open>None\<close> when the filter is not applied.\<close>

definition or_filter :: "jsstring list \<Rightarrow> jsstring option" where
  "or_filter terms =
     (if length (orConditions terms) > 0 then Some (join (js '','') (orConditions terms))
      else None)"

text \<open>In \<open>join\<close> a \<open>null\<close> element gives the empty string.\<close>

definition memberText :: "(jsstring \<Rightarrow> jsstring) \<Rightarrow> 'a member_scheme \<Rightarrow> jsstring" where
  "memberText lc m =
     lc (join (js '' '')
       ([name m, role m, (case description m of None \<Rightarrow> [] | Some d \<Rightarrow> d)]
        @ skills_or_empty (skills m)))"

text \<open>The \<open>forEach\<close> loop that accumulates the score.\<close>

definition term_score :: "jsstring list \<Rightarrow> jsstring \<Rightarrow> rat" where
  "term_score terms txt =
     fold (\<lambda>term score. if str_includes txt term then score + 1/5 else score) terms 0"

definition score_member ::
  "(jsstring \<Rightarrow> jsstring) \<Rightarrow> jsstring list \<Rightarrow> member \<Rightarrow> search_result" where
  "score_member lc terms m =
     \<lparr>id' = id' m, name = name m, email = email m, role = role m,
      description = description m, skills = skills m,
      profile_picture = profile_picture m, team = team m,
      similarity_score = JNum (min (term_score terms (memberText lc m)) 1)\<rparr>"

text \<open>\<open>results.sort((a, b) => b.similarity_score - a.similarity_score)\<close>: a stable sort,
  larger scores first. Every score that \<open>performTextSearch\<close> sorts is a number.\<close>

definition score_value :: "search_result \<Rightarrow> rat" where
  "score_value r = (case similarity_score r of JNum x \<Rightarrow> x | _ \<Rightarrow> 0)"

definition sort_results :: "search_result list \<Rightarrow> search_result list" where
  "sort_results rs = sort_key (\<lambda>r. - score_value r) rs"

definition performTextSearch ::
  "(jsstring \<Rightarrow> jsstring) \<Rightarrow> supabase \<Rightarrow> jsstring \<Rightarrow> jsnum
     \<Rightarrow> (js_error + search_result list) \<times> backend_call list" where
  "performTextSearch lc sb query limit =
     (let terms = searchTerms lc query in
      case select_call sb (or_filter terms) limit of
        ((members, Some error), tr) \<Rightarrow> (Inl error, tr)
      | ((members, None), tr) \<Rightarrow>
          (Inr (sort_results
                  (map (score_member lc terms)
                     (case members of None \<Rightarrow> [] | Some ms \<Rightarrow> ms))), tr))"

subsection \<open>The HTTP handler\<close>

datatype json_field =
    JBoolean bool
  | JString string
  | JText jsstring
  | JNumber nat
  | JResults "search_result list"

text \<open>A response: the body is \<open>None\<close> for \<open>null\<close>, or the object that is serialised,
  as its properties in order.\<close>

record response =
  status :: nat
  headers :: "(string \<times> string) list"
  body :: "(string \<times> json_field) list option"

text \<open>What \<open>req.json()\<close> gives: a rejection, \<open>null\<close>, or a value whose properties
  \<open>query\<close> and \<open>limit\<close> are read (\<open>JUndefined\<close> when absent, as for every property of
  a body that is a number, a string, a boolean or an array).\<close>

datatype parsed_body = InvalidJson | JsonNull | JsonBody jsval jsval

record request =
  req_method :: string
  req_json :: parsed_body

text \<open>What the handler reads from outside: \<open>Deno.env.get\<close>, \<open>createClient\<close>, the
  embedding session, the clock, and the two built-ins.\<close>

record world =
  SUPABASE_URL :: "string option"
  SUPABASE_SERVICE_ROLE_KEY :: "string option"
  createClient :: "string \<Rightarrow> string \<Rightarrow> supabase"
  ai_run :: "jsstring \<Rightarrow> js_error + vec"
  now :: string
  toLowerCase :: "jsstring \<Rightarrow> jsstring"
  ToNumber :: "jsval \<Rightarrow> jsnum"

definition corsHeaders :: "(string \<times> string) list" where
  "corsHeaders =
     [(''Access-Control-Allow-Origin'', ''*''),
      (''Access-Control-Allow-Headers'', ''authorization, x-client-info, apikey, content-type''),
      (''Access-Control-Allow-Methods'', ''POST, OPTIONS'')]"

definition json_headers :: "(string \<times> string) list" where
  "json_headers = corsHeaders @ [(''Content-Type'', ''application/json'')]"

text \<open>The responses whose body is \<open>{error: msg}\<close>.\<close>

definition error_response :: "nat \<Rightarrow> string \<Rightarrow> response" where
  "error_response code msg =
     \<lparr>status = code, headers = json_headers, body = Some [(''error'', JString msg)]\<rparr>"

definition success_response :: "jsstring \<Rightarrow> search_result list \<Rightarrow> string \<Rightarrow> response" where
  "success_response query results ts =
     \<lparr>status = 200, headers = json_headers,
      body = Some [(''success'', JBoolean True), (''query'', JText query),
                   (''results'', JResults results), (''count'', JNumber (length results)),
                   (''timestamp'', JString ts)]\<rparr>"

text \<open>The outer \<open>catch\<close>: \<open>error instanceof Error ? error.message : ...\<close>.\<close>

definition error_message :: "js_error \<Rightarrow> string" where
  "error_message e =
     (case e of Error m \<Rightarrow> m | ErrorObject x \<Rightarrow> ''An unexpected error occurred'')"

definition failure_response :: "js_error \<Rightarrow> string \<Rightarrow> response" where
  "failure_response e ts =
     \<lparr>status = 500, headers = json_headers,
      body = Some [(''success'', JBoolean False), (''error'', JString (error_message e)),
                   (''timestamp'', JString ts)]\<rparr>"

text \<open>\<open>Math.min(requestBody.limit || 10, 50)\<close>.\<close>

definition effective_limit :: "(jsval \<Rightarrow> jsnum) \<Rightarrow> jsval \<Rightarrow> jsnum" where
  "effective_limit tn l = math_min (to_number tn (js_or l (JNum 10))) 50"

text \<open>\<open>!supabaseUrl\<close>: the variable is unset or empty.\<close>

definition env_missing :: "string option \<Rightarrow> bool" where
  "env_missing v = (case v of None \<Rightarrow> True | Some s \<Rightarrow> s = [])"

definition env_value :: "string option \<Rightarrow> string" where
  "env_value v = (case v of None \<Rightarrow> [] | Some s \<Rightarrow> s)"

text \<open>The two nested \<open>try\<close> blocks around the searches.\<close>

definition run_search ::
  "world \<Rightarrow> supabase \<Rightarrow> jsstring \<Rightarrow> jsnum \<Rightarrow> (js_error + response) \<times> backend_call list" where
  "run_search w sb query limit =
     (case performSemanticSearch (ai_run w) sb query limit of
        (Inr results, tr) \<Rightarrow> (Inr (success_response query results (now w)), tr)
      | (Inl semanticError, tr) \<Rightarrow>
          (case performTextSearch (toLowerCase w) sb query limit of
             (Inr results, tr2) \<Rightarrow> (Inr (success_response query results (now w)), tr @ tr2)
           | (Inl textError, tr2) \<Rightarrow>
               (Inl (Error ''Search functionality is currently unavailable''), tr @ tr2)))"

text \<open>The body of the outer \<open>try\<close>: \<open>Inl\<close> is what it throws. Reading a property of
  \<open>null\<close> throws a \<open>TypeError\<close>.\<close>

definition try_block :: "world \<Rightarrow> request \<Rightarrow> (js_error + response) \<times> backend_call list" where
  "try_block w req =
     (if env_missing (SUPABASE_URL w) \<or> env_missing (SUPABASE_SERVICE_ROLE_KEY w)
      then (Inl (Error ''Missing Supabase environment variables''), [])
      else
        (let sb = createClient w (env_value (SUPABASE_URL w))
                                 (env_value (SUPABASE_SERVICE_ROLE_KEY w)) in
         case req_json req of
           InvalidJson \<Rightarrow> (Inr (error_response 400 ''Invalid JSON in request body''), [])
         | JsonNull \<Rightarrow>
             (Inl (Error (''Cannot read properties of null (reading '' @ [CHR 0x27] @ ''query''
                           @ [CHR 0x27] @ '')'')), [])
         | JsonBody q l \<Rightarrow>
             if \<not> truthy q \<or> \<not> is_string q
             then (Inr (error_response 400
                     (''Missing or invalid '' @ [CHR 0x22] @ ''query'' @ [CHR 0x22]
                       @ '' field in request body'')), [])
             else
               (let query = trim (string_of q);
                    limit = effective_limit (ToNumber w) l in
                if length query < 3
                then (Inr (error_response 400 ''Query must be at least 3 characters long''), [])
                else run_search w sb query limit)))"

definition handler :: "world \<Rightarrow> request \<Rightarrow> response \<times> backend_call list" where
  "handler w req =
     (if req_method req = ''OPTIONS''
      then (\<lparr>status = 200, headers = corsHeaders, body = None\<rparr>, [])
      else if req_method req \<noteq> ''POST''
      then (error_response 405 ''Method not allowed. Use POST.'', [])
      else (case try_block w req of
              (Inr resp, tr) \<Rightarrow> (resp, tr)
            | (Inl error, tr) \<Rightarrow> (failure_response error (now w), tr)))"

subsection \<open>The database: match\_members and the embedding trigger\<close>

record member_row =
  m_id :: int
  m_name :: jsstring
  m_email :: jsstring
  m_role :: jsstring
  m_description :: "jsstring option"
  m_skills :: "jsstring list option"
  m_profile_picture :: "jsstring option"
  m_team_id :: "int option"
  m_embedding :: "vec option"

record team_row =
  t_id :: int
  t_name :: jsstring

record database =
  members :: "member_row list"
  teams :: "team_row list"

text \<open>A PostgreSQL \<open>float\<close>. In comparisons and in \<open>ORDER BY\<close> PostgreSQL takes \<open>NaN\<close> as
  equal to itself and greater than every other value; arithmetic on \<open>NaN\<close> gives \<open>NaN\<close>;
  in a JSON reply \<open>NaN\<close> is the string \<open>"NaN"\<close>.\<close>

datatype pgfloat = Finite rat | PgNaN

fun one_minus :: "pgfloat \<Rightarrow> pgfloat" where
  "one_minus (Finite x) = Finite (1 - x)"
| "one_minus PgNaN = PgNaN"

fun pg_ge :: "pgfloat \<Rightarrow> rat \<Rightarrow> bool" where
  "pg_ge (Finite x) t = (x \<ge> t)"
| "pg_ge PgNaN t = True"

fun order_key :: "pgfloat \<Rightarrow> bool \<times> rat" where
  "order_key (Finite x) = (False, x)"
| "order_key PgNaN = (True, 0)"

fun json_of_float :: "pgfloat \<Rightarrow> jsval" where
  "json_of_float (Finite x) = JNum x"
| "json_of_float PgNaN = JStr (js ''NaN'')"

text \<open>An argument of a function with defaults: left out, \<open>NULL\<close>, or a value.\<close>

datatype 'a sql_arg = Omitted | SqlNull | Given 'a

fun arg_value :: "'a \<Rightarrow> 'a sql_arg \<Rightarrow> 'a option" where
  "arg_value d Omitted = Some d"
| "arg_value d SqlNull = None"
| "arg_value d (Given v) = Some v"

text \<open>\<open>FROM members m LEFT JOIN teams t ON m.team_id = t.id\<close>: a member with no team
  gives one row with a null team.\<close>

definition left_join_teams :: "team_row list \<Rightarrow> member_row \<Rightarrow> (member_row \<times> team_row option) list" where
  "left_join_teams ts m =
     (case filter (\<lambda>t. m_team_id m = Some (t_id t)) ts of
        [] \<Rightarrow> [(m, None)]
      | matching \<Rightarrow> map (\<lambda>t. (m, Some t)) matching)"

text \<open>The \<open>WHERE\<close> clause; a row that passes carries its distance
  \<open>m.embedding <=> query_embedding\<close>. The parameter \<open>cdist\<close> is pgvector's cosine distance
  \<open><=>\<close>. A comparison with a \<open>NULL\<close> threshold is not true.\<close>

definition where_clause ::
  "(vec \<Rightarrow> vec \<Rightarrow> pgfloat) \<Rightarrow> vec \<Rightarrow> rat option \<Rightarrow> member_row \<times> team_row option
     \<Rightarrow> (member_row \<times> team_row option \<times> pgfloat) list" where
  "where_clause cdist query_embedding similarity_threshold row =
     (case m_embedding (fst row) of
        None \<Rightarrow> []
      | Some e \<Rightarrow>
          (case similarity_threshold of
             None \<Rightarrow> []
           | Some th \<Rightarrow>
               if pg_ge (one_minus (cdist e query_embedding)) th
               then [(fst row, snd row, cdist e query_embedding)] else []))"

definition select_row :: "member_row \<times> team_row option \<times> pgfloat \<Rightarrow> match_row" where
  "select_row row =
     (case row of (m, t, d) \<Rightarrow>
        \<lparr>id' = m_id m, name = m_name m, email = m_email m, role = m_role m,
         description = m_description m, skills = m_skills m,
         profile_picture = m_profile_picture m, team = map_option t_name t,
         match_score = json_of_float (one_minus d),
         distance = json_of_float d\<rparr>)"

text \<open>The function. \<open>match_count\<close> defaults to 10 and \<open>similarity_threshold\<close> to 0.1.
  PostgreSQL raises an error for a negative \<open>LIMIT\<close> and applies no limit for
  \<open>LIMIT NULL\<close>. \<open>ORDER BY\<close> is a stable sort here (SQL leaves the order of ties open).\<close>

definition match_members ::
  "(vec \<Rightarrow> vec \<Rightarrow> pgfloat) \<Rightarrow> database \<Rightarrow> vec \<Rightarrow> int sql_arg \<Rightarrow> rat sql_arg
     \<Rightarrow> js_error + match_row list" where
  "match_members cdist db query_embedding match_count similarity_threshold =
     (let joined = concat (map (left_join_teams (teams db)) (members db));
          kept = concat (map (where_clause cdist query_embedding
                                (arg_value (1/10) similarity_threshold)) joined);
          ordered = sort_key (\<lambda>(m, t, d). order_key d) kept
      in case arg_value 10 match_count of
           None \<Rightarrow> Inr (map select_row ordered)
         | Some n \<Rightarrow>
             if n < 0 then Inl (ErrorObject ''LIMIT must not be negative'')
             else Inr (map select_row (take (nat n) ordered)))"

text \<open>The trigger function \<open>generate_member_embedding\<close> (\<open>BEFORE INSERT OR UPDATE\<close>): a
  row without embedding gets the zero vector of 384 components.\<close>

definition zero_vector :: vec where
  "zero_vector = replicate 384 0"

definition generate_member_embedding :: "member_row \<Rightarrow> member_row" where
  "generate_member_embedding NEW =
     (if m_embedding NEW = None then NEW\<lparr>m_embedding := Some zero_vector\<rparr> else NEW)"

definition insert_member :: "database \<Rightarrow> member_row \<Rightarrow> database" where
  "insert_member db NEW = db\<lparr>members := members db @ [generate_member_embedding NEW]\<rparr>"

text \<open>The rows that \<open>update_member_embeddings\<close> selects as still lacking an embedding:
  \<open>WHERE embedding IS NULL OR embedding = vector(array_fill(0, ARRAY[384]))\<close>.\<close>

definition lacks_embedding :: "member_row \<Rightarrow> bool" where
  "lacks_embedding m = (m_embedding m = None \<or> m_embedding m = Some zero_vector)"

text \<open>How the arguments of the RPC reach the function: \<open>match_count\<close> travels as JSON,
  where \<open>NaN\<close> and the infinities are \<open>null\<close>, and PostgREST reads it into the \<open>int\<close>
  parameter (\<open>json_to_record\<close>), which fails for a number that is not whole.\<close>

definition sql_int :: "jsnum \<Rightarrow> js_error + int sql_arg" where
  "sql_int n =
     (case n of
        Num r \<Rightarrow>
          if of_int \<lfloor>r\<rfloor> = r then Inr (Given \<lfloor>r\<rfloor>)
          else Inl (ErrorObject ''invalid input syntax for type integer'')
      | _ \<Rightarrow> Inr SqlNull)"

text \<open>A client whose \<open>rpc('match_members', ...)\<close> runs the function on a database,
  unless the call itself fails (\<open>rpc_failure\<close>); the query on \<open>members\<close> stays a
  parameter.\<close>

definition db_client ::
  "(vec \<Rightarrow> vec \<Rightarrow> pgfloat) \<Rightarrow> database \<Rightarrow> (vec \<Rightarrow> jsnum \<Rightarrow> rat \<Rightarrow> js_error option)
     \<Rightarrow> (jsstring option \<Rightarrow> jsnum \<Rightarrow> member list option \<times> js_error option) \<Rightarrow> supabase" where
  "db_client cdist db rpc_failure sel =
     \<lparr>rpc_match_members = (\<lambda>q n th.
        case rpc_failure q n th of
          Some e \<Rightarrow> (None, Some e)
        | None \<Rightarrow>
            (case sql_int n of
               Inl e \<Rightarrow> (None, Some e)
             | Inr count \<Rightarrow>
                 (case match_members cdist db q count (Given th) of
                    Inl e \<Rightarrow> (None, Some e)
                  | Inr rows \<Rightarrow> (Some rows, None)))),
      select_members = sel\<rparr>"

subsection \<open>Reading a response and a call\<close>

text \<open>The client the handler creates, and the test that both environment
  variables are set.\<close>

definition client_of :: "world \<Rightarrow> supabase" where
  "client_of w =
     createClient w (env_value (SUPABASE_URL w)) (env_value (SUPABASE_SERVICE_ROLE_KEY w))"

definition env_ok :: "world \<Rightarrow> bool" where
  "env_ok w =
     (\<not> env_missing (SUPABASE_URL w) \<and> \<not> env_missing (SUPABASE_SERVICE_ROLE_KEY w))"

definition lookup_field :: "response \<Rightarrow> string \<Rightarrow> json_field option" where
  "lookup_field resp k = (case body resp of None \<Rightarrow> None | Some kvs \<Rightarrow> map_of kvs k)"


text \<open>The limit a service call carries, if it carries one.\<close>

fun call_limit :: "backend_call \<Rightarrow> jsnum option" where
  "call_limit (AiRun t) = None"
| "call_limit (RpcMatchMembers v n th) = Some n"
| "call_limit (SelectMembers f n) = Some n"

text \<open>The rows of a reply of the query on \<open>members\<close>: \<open>members || []\<close>.\<close>

definition rows_of :: "member list option \<Rightarrow> member list" where
  "rows_of d = (case d of None \<Rightarrow> [] | Some ms \<Rightarrow> ms)"

subsection \<open>The specification's reading of the text matcher\<close>

text \<open>The specification says that the text matcher "splits on whitespace into terms
  > 2 characters". The two definitions below follow these words, not
  \<open>performTextSearch\<close>: the query is cut at every white-space code unit.\<close>

fun split_whitespace :: "jsstring \<Rightarrow> jsstring list" where
  "split_whitespace [] = [[]]"
| "split_whitespace (c # cs) =
     (if is_space c then [] # split_whitespace cs
      else (case split_whitespace cs of w # ws \<Rightarrow> (c # w) # ws | [] \<Rightarrow> [[c]]))"

definition spec_whitespace_terms :: "(jsstring \<Rightarrow> jsstring) \<Rightarrow> jsstring \<Rightarrow> jsstring list" where
  "spec_whitespace_terms lc query =
     filter (\<lambda>term. length term > 2) (split_whitespace (lc query))"

text \<open>It also says that the predicate is a "substring match" across name, role,
  description and skills. Following these words, a term matches the skills of a member
  when it occurs inside one of them.\<close>

definition spec_skills_substring_match :: "jsstring \<Rightarrow> jsstring list \<Rightarrow> bool" where
  "spec_skills_substring_match term sk = (\<exists>s \<in> set sk. sublist term s)"

text \<open>The condition that the code builds for the skills is \<open>skills.cs.{term}\<close>; in
  PostgREST \<open>cs\<close> is the containment \<open>@>\<close> of arrays: every element of \<open>{term}\<close> is an
  element of \<open>skills\<close>.\<close>

definition skills_contain :: "jsstring \<Rightarrow> jsstring list \<Rightarrow> bool" where
  "skills_contain term sk = (term \<in> set sk)"

subsection \<open>A small deployment for concrete runs\<close>

text \<open>\<open>toLowerCase\<close> on ASCII strings, and a \<open>ToNumber\<close> that is not consulted in the
  runs below, where every limit is a number or falsy.\<close>

definition ex_lower :: "jsstring \<Rightarrow> jsstring" where
  "ex_lower s = map (\<lambda>c. if 65 \<le> c \<and> c \<le> 90 then c + 32 else c) s"

definition ex_to_number :: "jsval \<Rightarrow> jsnum" where
  "ex_to_number v = NaN"

definition ex_ada :: member where
  "ex_ada = \<lparr>id' = 1, name = js ''Ada'', email = js ''a@x.io'', role = js ''Engineer'',
       description = Some (js ''Web apps''), skills = Some [js ''css'', js ''reactjs''],
       profile_picture = None, team = Some (js ''Web'')\<rparr>"

definition ex_bob :: member where
  "ex_bob = \<lparr>id' = 2, name = js ''Bob'', email = js ''b@x.io'', role = js ''React Dev'',
       description = None, skills = None,
       profile_picture = None, team = None\<rparr>"

definition ex_members :: "member list" where
  "ex_members = [ex_ada, ex_bob]"

text \<open>A query on \<open>members\<close> that honours a whole, non-negative limit and fails on any
  other.\<close>

definition ex_select :: "jsstring option \<Rightarrow> jsnum \<Rightarrow> member list option \<times> js_error option" where
  "ex_select f n =
     (case n of
        Num r \<Rightarrow>
          if 0 \<le> r \<and> of_int \<lfloor>r\<rfloor> = r then (Some (take (nat \<lfloor>r\<rfloor>) ex_members), None)
          else (None, Some (ErrorObject ''range''))
      | _ \<Rightarrow> (None, Some (ErrorObject ''range'')))"

text \<open>Embeddings of 384 components, and the cosine distance between them: 0 between
  equal vectors, 2/5 between \<open>(3, 4, 0, ...)\<close> and \<open>(1, 0, 0, ...)\<close>; for a zero vector
  pgvector divides 0 by 0 and the distance is \<open>NaN\<close>.\<close>

definition ex_e1 :: vec where
  "ex_e1 = 1 # replicate 383 0"

definition ex_e34 :: vec where
  "ex_e34 = 3 # 4 # replicate 382 0"

definition ex_cdist :: "vec \<Rightarrow> vec \<Rightarrow> pgfloat" where
  "ex_cdist a b =
     (if list_all (\<lambda>x. x = 0) a \<or> list_all (\<lambda>x. x = 0) b then PgNaN
      else if a = b then Finite 0
      else if (a = ex_e34 \<and> b = ex_e1) \<or> (a = ex_e1 \<and> b = ex_e34) then Finite (2/5)
      else Finite 1)"

definition ex_db :: database where
  "ex_db =
     \<lparr>members =
        [\<lparr>m_id = 1, m_name = js ''Ada'', m_email = js ''a@x.io'', m_role = js ''Engineer'',
          m_description = Some (js ''Web apps''), m_skills = Some [js ''css'', js ''reactjs''],
          m_profile_picture = None, m_team_id = Some 1, m_embedding = Some ex_e34\<rparr>,
         \<lparr>m_id = 2, m_name = js ''Bob'', m_email = js ''b@x.io'', m_role = js ''React Dev'',
          m_description = None, m_skills = None,
          m_profile_picture = None, m_team_id = None, m_embedding = Some ex_e1\<rparr>],
      teams = [\<lparr>t_id = 1, t_name = js ''Web''\<rparr>]\<rparr>"

text \<open>A member inserted without embedding: the trigger stores the zero vector.\<close>

definition ex_cy :: member_row where
  "ex_cy = \<lparr>m_id = 3, m_name = js ''Cy'', m_email = js ''c@x.io'', m_role = js ''Intern'',
          m_description = None, m_skills = None,
          m_profile_picture = None, m_team_id = Some 1, m_embedding = None\<rparr>"

definition ex_db_cy :: database where
  "ex_db_cy = insert_member ex_db ex_cy"

definition ex_client :: "database \<Rightarrow> supabase" where
  "ex_client db = db_client ex_cdist db (\<lambda>q n th. None) ex_select"

text \<open>The deployment on a database; the embedding model works or is down.\<close>

definition ex_world :: "database \<Rightarrow> bool \<Rightarrow> world" where
  "ex_world db model_up =
     \<lparr>SUPABASE_URL = Some ''u'', SUPABASE_SERVICE_ROLE_KEY = Some ''k'',
      createClient = (\<lambda>url key. ex_client db),
      ai_run = (\<lambda>t. if model_up then Inr ex_e1 else Inl (Error ''model down'')),
      now = ''2025-06-26'',
      toLowerCase = ex_lower,
      ToNumber = ex_to_number\<rparr>"

text \<open>A member with a score attached.\<close>

definition with_score :: "member \<Rightarrow> jsval \<Rightarrow> search_result" where
  "with_score m s =
     \<lparr>id' = id' m, name = name m, email = email m, role = role m,
      description = description m, skills = skills m,
      profile_picture = profile_picture m, team = team m, similarity_score = s\<rparr>"

text \<open>What the semantic search returns for the query vector \<open>ex_e1\<close>: on \<open>ex_db\<close>,
  and on \<open>ex_db_cy\<close>, where the row of Cy carries the string \<open>NaN\<close>.\<close>

definition ex_semantic_results :: "search_result list" where
  "ex_semantic_results =
     [with_score (ex_bob\<lparr>skills := Some []\<rparr>) (JNum 1), with_score ex_ada (JNum (3/5))]"

definition ex_cy_member :: member where
  "ex_cy_member = \<lparr>id' = 3, name = js ''Cy'', email = js ''c@x.io'', role = js ''Intern'',
       description = None, skills = None,
       profile_picture = None, team = Some (js ''Web'')\<rparr>"

definition ex_semantic_results_cy :: "search_result list" where
  "ex_semantic_results_cy =
     [with_score (ex_bob\<lparr>skills := Some []\<rparr>) (JNum 1), with_score ex_ada (JNum (3/5)),
      with_score (ex_cy_member\<lparr>skills := Some []\<rparr>) (JStr (js ''NaN''))]"

definition ex_rows_cy :: "match_row list" where
  "ex_rows_cy =
     [\<lparr>id' = 2, name = js ''Bob'', email = js ''b@x.io'', role = js ''React Dev'',
       description = None, skills = None, profile_picture = None, team = None,
       match_score = JNum 1, distance = JNum 0\<rparr>,
      \<lparr>id' = 1, name = js ''Ada'', email = js ''a@x.io'', role = js ''Engineer'',
       description = Some (js ''Web apps''), skills = Some [js ''css'', js ''reactjs''],
       profile_picture = None, team = Some (js ''Web''),
       match_score = JNum (3/5), distance = JNum (2/5)\<rparr>,
      \<lparr>id' = 3, name = js ''Cy'', email = js ''c@x.io'', role = js ''Intern'',
       description = None, skills = None, profile_picture = None, team = Some (js ''Web''),
       match_score = JStr (js ''NaN''), distance = JStr (js ''NaN'')\<rparr>]"

definition post :: "jsval \<Rightarrow> jsval \<Rightarrow> request" where
  "post q l = \<lparr>req_method = ''POST'', req_json = JsonBody q l\<rparr>"

section \<open>Properties\<close>

subsection \<open>Strings, scores and sorting\<close>

lemma str_includes_sublist: "str_includes s t = sublist t s"
  by (induction s) (auto simp: sublist_Cons_right)

lemma term_score_fold:
  "fold (\<lambda>term score. if str_includes txt term then score + 1/5 else score) terms acc
     = acc + (1/5) * of_nat (length (filter (\<lambda>term. sublist term txt) terms))"
  by (induction terms arbitrary: acc) (simp_all add: str_includes_sublist algebra_simps)

lemma term_score_count:
  "term_score terms txt = (1/5) * of_nat (length (filter (\<lambda>term. sublist term txt) terms))"
  by (simp add: term_score_def term_score_fold)

lemma score_member_fields:
  "name (score_member lc terms m) = name m"
  "role (score_member lc terms m) = role m"
  "description (score_member lc terms m) = description m"
  "skills (score_member lc terms m) = skills m"
  by (simp_all add: score_member_def)

lemma similarity_score_score_member:
  "similarity_score (score_member lc terms m) =
     JNum (min ((1/5) * of_nat (length (filter
        (\<lambda>term. sublist term
           (lc (join (js '' '')
              ([name m, role m, (case description m of None \<Rightarrow> [] | Some d \<Rightarrow> d)]
               @ (case skills m of None \<Rightarrow> [] | Some sk \<Rightarrow> sk)))))
        terms))) 1)"
  by (simp add: score_member_def memberText_def skills_or_empty_def term_score_count)

lemma set_sort_results: "set (sort_results rs) = set rs"
  by (simp add: sort_results_def)

lemma length_sort_results: "length (sort_results rs) = length rs"
  by (simp add: sort_results_def)

subsection \<open>Splitting a query into terms\<close>

lemma split_not_Nil: "split sep s \<noteq> []"
  by (induction s) (auto split: list.splits)

lemma split_no_sep: "w \<in> set (split sep s) \<Longrightarrow> sep \<notin> set w"
proof (induction s arbitrary: w)
  case Nil
  then show ?case by simp
next
  case (Cons c cs)
  then show ?case
    by (cases "split sep cs") (auto simp: split_not_Nil split: if_splits)
qed

lemma split_word: "sep \<notin> set w \<Longrightarrow> split sep w = [w]"
  by (induction w) auto

lemma split_word_sep:
  "sep \<notin> set w \<Longrightarrow> split sep (w @ sep # rest) = w # split sep rest"
  by (induction w) (auto simp: split_not_Nil split: list.splits)

lemma split_join:
  assumes "ws \<noteq> []" and "\<forall>w \<in> set ws. sep \<notin> set w"
  shows "split sep (join [sep] ws) = ws"
  using assms
proof (induction "[sep]" ws rule: join.induct)
  case 1
  then show ?case by simp
next
  case (2 x)
  then show ?case by (simp add: split_word)
next
  case (3 x y ys)
  then show ?case by (simp add: split_word_sep)
qed

lemma join_split: "join [sep] (split sep s) = s"
proof (induction s)
  case Nil
  then show ?case by simp
next
  case (Cons c cs)
  show ?case
  proof (cases "split sep cs")
    case Nil
    then show ?thesis by (simp add: split_not_Nil)
  next
    case (Cons w ws)
    with Cons.IH show ?thesis
      by (cases ws) auto
  qed
qed

lemma js_space: "js '' '' = [32]"
  by (simp add: js_def)

subsection \<open>The two searches\<close>

lemma performTextSearch_eq:
  "performTextSearch lc sb query limit =
     (case select_members sb (or_filter (searchTerms lc query)) limit of
        (d, Some error) \<Rightarrow>
          (Inl error, [SelectMembers (or_filter (searchTerms lc query)) limit])
      | (d, None) \<Rightarrow>
          (Inr (sort_results (map (score_member lc (searchTerms lc query)) (rows_of d))),
           [SelectMembers (or_filter (searchTerms lc query)) limit]))"
  by (simp add: performTextSearch_def select_call_def rows_of_def Let_def
           split: prod.splits option.splits)

lemma performTextSearch_Inr:
  assumes "fst (performTextSearch lc sb query limit) = Inr results"
  shows "\<exists>d. select_members sb (or_filter (searchTerms lc query)) limit = (d, None)
           \<and> results = sort_results (map (score_member lc (searchTerms lc query)) (rows_of d))"
  using assms
  by (auto simp: performTextSearch_eq split: prod.splits option.splits)

lemma performTextSearch_trace:
  "snd (performTextSearch lc sb query limit)
     = [SelectMembers (or_filter (searchTerms lc query)) limit]"
  by (auto simp: performTextSearch_eq split: prod.splits option.splits)

lemma performSemanticSearch_trace:
  "snd (performSemanticSearch ai sb query limit) =
     (case ai query of Inl e \<Rightarrow> [AiRun query]
      | Inr v \<Rightarrow> [AiRun query, RpcMatchMembers v limit (1/10)])"
  by (auto simp: performSemanticSearch_def generateEmbedding_def model_run_def rpc_call_def
           split: sum.splits prod.splits option.splits)

lemma or_filter_explicit:
  "or_filter terms =
     (if terms = [] then None
      else Some (join (js '','')
        (concat (map (\<lambda>term.
           [js ''name.ilike.%'' @ term @ js ''%'', js ''role.ilike.%'' @ term @ js ''%'',
            js ''description.ilike.%'' @ term @ js ''%'', js ''skills.cs.{'' @ term @ js ''}''])
           terms))))"
  by (cases terms) (simp_all add: or_filter_def orConditions_def)

subsection \<open>The handler\<close>

lemma trim_Nil: "trim [] = []"
  by (simp add: trim_def)


lemma handler_valid_query:
  assumes "req_method req = ''POST''" and "env_ok w"
      and "req_json req = JsonBody (JStr raw) l" and "3 \<le> length (trim raw)"
  shows "handler w req =
           (case run_search w (client_of w) (trim raw) (effective_limit (ToNumber w) l) of
              (Inr resp, tr) \<Rightarrow> (resp, tr)
            | (Inl error, tr) \<Rightarrow> (failure_response error (now w), tr))"
proof -
  from assms(4) have "raw \<noteq> []" by (auto simp: trim_Nil)
  with assms show ?thesis
    by (simp add: handler_def try_block_def env_ok_def client_of_def Let_def)
qed

lemma run_search_trace_limit:
  assumes "c \<in> set (snd (run_search w sb query limit))"
  shows "call_limit c = None \<or> call_limit c = Some limit"
proof -
  have "set (snd (run_search w sb query limit))
          \<subseteq> set (snd (performSemanticSearch (ai_run w) sb query limit))
            \<union> set (snd (performTextSearch (toLowerCase w) sb query limit))"
    by (auto simp: run_search_def split: prod.splits sum.splits)
  with assms have "c \<in> set (snd (performSemanticSearch (ai_run w) sb query limit))
                 \<or> c \<in> set (snd (performTextSearch (toLowerCase w) sb query limit))"
    by blast
  then show ?thesis
    by (auto simp: performSemanticSearch_trace performTextSearch_trace split: sum.splits)
qed

lemma try_block_cases:
  "(\<exists>e. try_block w req = (Inl e, []))
   \<or> (\<exists>msg. try_block w req = (Inr (error_response 400 msg), []))
   \<or> (\<exists>raw l. req_json req = JsonBody (JStr raw) l \<and> 3 \<le> length (trim raw) \<and> env_ok w \<and>
        try_block w req
          = run_search w (client_of w) (trim raw) (effective_limit (ToNumber w) l))"
proof (cases "req_json req")
  case (JsonBody q l)
  then show ?thesis
    by (cases q) (auto simp: try_block_def Let_def env_ok_def client_of_def)
qed (auto simp: try_block_def Let_def)

lemma handler_trace:
  "snd (handler w req) = (if req_method req = ''POST'' then snd (try_block w req) else [])"
  by (auto simp: handler_def split: prod.splits sum.splits)

subsection \<open>Where the results of a response come from\<close>

lemma run_search_Inr:
  assumes "fst (run_search w sb query limit) = Inr resp"
  shows "\<exists>rs. resp = success_response query rs (now w)
           \<and> (fst (performSemanticSearch (ai_run w) sb query limit) = Inr rs
              \<or> fst (performTextSearch (toLowerCase w) sb query limit) = Inr rs)"
  using assms by (auto simp: run_search_def split: prod.splits sum.splits)

lemma lookup_results_success:
  "lookup_field (success_response query rs ts) ''results'' = Some (JResults rs') \<longleftrightarrow> rs' = rs"
  by (auto simp: lookup_field_def success_response_def)

lemma lookup_count_success:
  "lookup_field (success_response query rs ts) ''count'' = Some (JNumber (length rs))"
  by (simp add: lookup_field_def success_response_def)

lemma handler_results:
  assumes "lookup_field (fst (handler w req)) ''results'' = Some (JResults rs)"
  shows "\<exists>raw l. req_json req = JsonBody (JStr raw) l
           \<and> fst (handler w req) = success_response (trim raw) rs (now w)
           \<and> (fst (performSemanticSearch (ai_run w) (client_of w) (trim raw)
                     (effective_limit (ToNumber w) l)) = Inr rs
              \<or> fst (performTextSearch (toLowerCase w) (client_of w) (trim raw)
                        (effective_limit (ToNumber w) l)) = Inr rs)"
proof -
  have post: "req_method req = ''POST''"
    using assms
    by (auto simp: handler_def lookup_field_def error_response_def split: if_splits)
  obtain out tr where tb: "try_block w req = (out, tr)"
    by (cases "try_block w req")
  with post have h: "fst (handler w req) =
      (case out of Inr resp \<Rightarrow> resp | Inl e \<Rightarrow> failure_response e (now w))"
    by (simp add: handler_def split: sum.splits)
  from try_block_cases [of w req] show ?thesis
  proof (elim disjE exE conjE)
    fix e assume "try_block w req = (Inl e, [])"
    with tb have "out = Inl e" by simp
    with h assms show ?thesis
      by (simp add: lookup_field_def failure_response_def)
  next
    fix msg assume "try_block w req = (Inr (error_response 400 msg), [])"
    with tb have "out = Inr (error_response 400 msg)" by simp
    with h assms show ?thesis
      by (simp add: lookup_field_def error_response_def)
  next
    fix raw l
    assume body: "req_json req = JsonBody (JStr raw) l"
       and run: "try_block w req
                   = run_search w (client_of w) (trim raw) (effective_limit (ToNumber w) l)"
    show ?thesis
    proof (cases out)
      case (Inl e)
      with tb h assms show ?thesis
        by (simp add: lookup_field_def failure_response_def)
    next
      case (Inr resp)
      with tb run have "fst (run_search w (client_of w) (trim raw)
                               (effective_limit (ToNumber w) l)) = Inr resp"
        by simp
      from run_search_Inr [OF this] obtain rs' where
        resp: "resp = success_response (trim raw) rs' (now w)"
        and src: "fst (performSemanticSearch (ai_run w) (client_of w) (trim raw)
                         (effective_limit (ToNumber w) l)) = Inr rs'
                  \<or> fst (performTextSearch (toLowerCase w) (client_of w) (trim raw)
                            (effective_limit (ToNumber w) l)) = Inr rs'"
        by blast
      from h Inr resp assms have "rs' = rs"
        by (simp add: lookup_results_success)
      with body h Inr resp src show ?thesis by auto
    qed
  qed
qed

subsection \<open>match\_members behind the client\<close>

lemma match_members_length:
  assumes "match_members cdist db q (Given n) th = Inr rows"
  shows "0 \<le> n \<and> int (length rows) \<le> n"
  using assms by (auto simp: match_members_def Let_def split: if_splits)

lemma sql_int_Num:
  assumes "sql_int (Num r) = Inr count"
  shows "count = Given \<lfloor>r\<rfloor> \<and> of_int \<lfloor>r\<rfloor> = r"
  using assms by (auto simp: sql_int_def split: if_splits)

lemma similarity_score_result_of_match:
  "similarity_score (result_of_match r)
     = (if truthy (match_score r) then match_score r else JNum 0)"
  by (simp add: result_of_match_def js_or_def)

lemma performSemanticSearch_db_Inr:
  assumes "fst (performSemanticSearch ai (db_client cdist db rpc_failure sel) query limit)
             = Inr rs"
  shows "\<exists>v count rows. ai query = Inr v \<and> sql_int limit = Inr count
           \<and> match_members cdist db v count (Given (1/10)) = Inr rows
           \<and> rs = map result_of_match rows"
  using assms
  by (auto simp: performSemanticSearch_def generateEmbedding_def model_run_def rpc_call_def
                 db_client_def
           split: sum.splits option.splits prod.splits if_splits)

text \<open>The reply that \<open>performSemanticSearch\<close> reads is the one for the embedding of the
  query, the limit it was given and the threshold 1/10.\<close>

lemma performSemanticSearch_rpc_argument:
  assumes "ai query = Inr v"
      and "rpc_match_members sb v limit (1/10) = rpc_match_members sb' v limit (1/10)"
  shows "performSemanticSearch ai sb query limit = performSemanticSearch ai sb' query limit"
  using assms
  by (simp add: performSemanticSearch_def generateEmbedding_def model_run_def rpc_call_def)

text \<open>A limit that is truthy and not a number: \<open>Math.min\<close> gives \<open>NaN\<close>, which travels as
  \<open>null\<close>, and \<open>LIMIT NULL\<close> returns every row that passes the \<open>WHERE\<close> clause.\<close>

lemma limit_not_a_number:
  assumes "tn (JStr (js ''abc'')) = NaN"
  shows "effective_limit tn (JStr (js ''abc'')) = NaN
       \<and> sql_int NaN = Inr SqlNull
       \<and> (\<exists>rows. match_members cdist db q SqlNull th = Inr rows
              \<and> (\<forall>n. match_members cdist db q (Given n) th = Inr rows'
                     \<longrightarrow> length rows' \<le> length rows))"
  using assms
  by (auto simp: effective_limit_def js_or_def js_def sql_int_def match_members_def Let_def
           split: if_splits)

subsection \<open>C4: the score of the text search\<close>

text \<open>
  Claim C4. Every member that \<open>performTextSearch\<close> returns has as \<open>similarity_score\<close>
  one fifth (0.2) of the number of search terms that occur as substrings of the member
  text, capped at 1. The search terms are the pieces of the lowercased query between
  spaces that are longer than 2 characters, counted with repetition; the member text
  is the lowercased concatenation, with single spaces between the parts, of the name,
  the role, the description (empty when null) and the skills (none when null).
\<close>

theorem text_search_score:
  assumes "fst (performTextSearch lc sb query limit) = Inr results"
      and "r \<in> set results"
  shows "similarity_score r =
           JNum (min ((1/5) * of_nat (length (filter
              (\<lambda>term. sublist term
                 (lc (join (js '' '')
                    ([name r, role r, (case description r of None \<Rightarrow> [] | Some d \<Rightarrow> d)]
                     @ (case skills r of None \<Rightarrow> [] | Some sk \<Rightarrow> sk)))))
              (filter (\<lambda>term. 2 < length term) (split 32 (lc query)))))) 1)"
proof -
  from performTextSearch_Inr [OF assms(1)] obtain d where
    res: "results = sort_results (map (score_member lc (searchTerms lc query)) (rows_of d))"
    by blast
  with assms(2) obtain m where r: "r = score_member lc (searchTerms lc query) m"
    by (auto simp: set_sort_results)
  show ?thesis
    unfolding r score_member_fields similarity_score_score_member searchTerms_def ..
qed

text \<open>The query \<open>CSS Web\<close> on the small deployment: for Ada the term \<open>css\<close> occurs in
  the skills only and the term \<open>web\<close> in the description only.\<close>

theorem text_search_score_witness:
  "fst (performTextSearch ex_lower (ex_client ex_db) (js ''CSS Web'') (Num 5))
     = Inr [with_score ex_ada (JNum (2/5)), with_score ex_bob (JNum 0)]
   \<and> with_score ex_ada (JNum (2/5))
        \<in> set [with_score ex_ada (JNum (2/5)), with_score ex_bob (JNum 0)]
   \<and> JNum (2/5) =
       JNum (min ((1/5) * of_nat (length (filter
          (\<lambda>term. sublist term
             (ex_lower (join (js '' '')
                ([js ''Ada'', js ''Engineer'', js ''Web apps''] @ [js ''css'', js ''reactjs'']))))
          (filter (\<lambda>term. 2 < length term) (split 32 (ex_lower (js ''CSS Web''))))))) 1)"
proof -
  have run: "fst (performTextSearch ex_lower (ex_client ex_db) (js ''CSS Web'') (Num 5))
               = Inr [with_score ex_ada (JNum (2/5)), with_score ex_bob (JNum 0)]"
    by code_simp
  have mem: "with_score ex_ada (JNum (2/5))
               \<in> set [with_score ex_ada (JNum (2/5)), with_score ex_bob (JNum 0)]"
    by simp
  have fields: "similarity_score (with_score ex_ada (JNum (2/5))) = JNum (2/5)"
    "name (with_score ex_ada (JNum (2/5))) = js ''Ada''"
    "role (with_score ex_ada (JNum (2/5))) = js ''Engineer''"
    "description (with_score ex_ada (JNum (2/5))) = Some (js ''Web apps'')"
    "skills (with_score ex_ada (JNum (2/5))) = Some [js ''css'', js ''reactjs'']"
    by (simp_all add: with_score_def ex_ada_def)
  from text_search_score [OF run mem] have
    "JNum (2/5) =
       JNum (min ((1/5) * of_nat (length (filter
          (\<lambda>term. sublist term
             (ex_lower (join (js '' '')
                ([js ''Ada'', js ''Engineer'', js ''Web apps''] @ [js ''css'', js ''reactjs'']))))
          (filter (\<lambda>term. 2 < length term) (split 32 (ex_lower (js ''CSS Web''))))))) 1)"
    unfolding fields by simp
  with run mem show ?thesis by blast
qed

subsection \<open>C1: the fallback to the text search\<close>

text \<open>
  Claim C1. For a POST request with a valid query (a string whose trimmed length is at
  least 3, the environment being configured so that the searches are reached): if
  \<open>performSemanticSearch\<close> throws, the handler calls \<open>performTextSearch\<close> with the same
  query and limit. When that returns, the response has status 200 and the body
  \<open>{success: true, query, results, count, timestamp}\<close> with the results of the text
  search and their number; only when it throws too the response has status 500, with
  a fixed message. The thrown semantic error \<open>e\<close> occurs in neither response.
\<close>

theorem semantic_failure_falls_back:
  assumes "req_method req = ''POST''" and "env_ok w"
      and "req_json req = JsonBody (JStr raw) l" and "3 \<le> length (trim raw)"
      and "fst (performSemanticSearch (ai_run w) (client_of w) (trim raw)
                  (effective_limit (ToNumber w) l)) = Inl e"
  shows "fst (handler w req) =
           (case fst (performTextSearch (toLowerCase w) (client_of w) (trim raw)
                        (effective_limit (ToNumber w) l)) of
              Inr results \<Rightarrow>
                \<lparr>status = 200, headers = json_headers,
                 body = Some [(''success'', JBoolean True), (''query'', JText (trim raw)),
                              (''results'', JResults results),
                              (''count'', JNumber (length results)),
                              (''timestamp'', JString (now w))]\<rparr>
            | Inl textError \<Rightarrow>
                \<lparr>status = 500, headers = json_headers,
                 body = Some [(''success'', JBoolean False),
                              (''error'',
                               JString ''Search functionality is currently unavailable''),
                              (''timestamp'', JString (now w))]\<rparr>)
       \<and> snd (handler w req) =
           snd (performSemanticSearch (ai_run w) (client_of w) (trim raw)
                  (effective_limit (ToNumber w) l))
           @ snd (performTextSearch (toLowerCase w) (client_of w) (trim raw)
                    (effective_limit (ToNumber w) l))
       \<and> ((status (fst (handler w req)) \<noteq> 200) =
            (\<exists>textError. fst (performTextSearch (toLowerCase w) (client_of w) (trim raw)
                                 (effective_limit (ToNumber w) l)) = Inl textError))"
proof -
  let ?lim = "effective_limit (ToNumber w) l"
  let ?sem = "performSemanticSearch (ai_run w) (client_of w) (trim raw) ?lim"
  let ?text = "performTextSearch (toLowerCase w) (client_of w) (trim raw) ?lim"
  obtain tr where sem: "?sem = (Inl e, tr)"
    using assms(5) by (cases ?sem) simp
  obtain res tr2 where tsr: "?text = (res, tr2)"
    by (cases ?text)
  show ?thesis
    unfolding handler_valid_query [OF assms(1-4)]
    by (cases res)
       (simp_all add: run_search_def sem tsr success_response_def failure_response_def
                      error_message_def)
qed

text \<open>The embedding model is down; the query \<open>CSS Web\<close> is answered by the text
  search.\<close>

theorem semantic_failure_falls_back_witness:
  "env_ok (ex_world ex_db False)
   \<and> 3 \<le> length (trim (js ''CSS Web''))
   \<and> fst (performSemanticSearch (ai_run (ex_world ex_db False)) (client_of (ex_world ex_db False))
            (trim (js ''CSS Web'')) (effective_limit (ToNumber (ex_world ex_db False)) (JNum 5)))
       = Inl (Error ''Failed to generate embedding'')
   \<and> fst (handler (ex_world ex_db False) (post (JStr (js ''CSS Web'')) (JNum 5)))
       = \<lparr>status = 200, headers = json_headers,
          body = Some [(''success'', JBoolean True), (''query'', JText (js ''CSS Web'')),
                       (''results'', JResults [with_score ex_ada (JNum (2/5)),
                                               with_score ex_bob (JNum 0)]),
                       (''count'', JNumber 2),
                       (''timestamp'', JString ''2025-06-26'')]\<rparr>"
proof -
  let ?w = "ex_world ex_db False"
  have h1: "req_method (post (JStr (js ''CSS Web'')) (JNum 5)) = ''POST''"
    by (simp add: post_def)
  have h2: "env_ok ?w" by code_simp
  have h3: "req_json (post (JStr (js ''CSS Web'')) (JNum 5))
              = JsonBody (JStr (js ''CSS Web'')) (JNum 5)"
    by (simp add: post_def)
  have h4: "3 \<le> length (trim (js ''CSS Web''))" by code_simp
  have h5: "fst (performSemanticSearch (ai_run ?w) (client_of ?w)
                   (trim (js ''CSS Web'')) (effective_limit (ToNumber ?w) (JNum 5)))
              = Inl (Error ''Failed to generate embedding'')"
    by code_simp
  have fallback: "fst (performTextSearch (toLowerCase ?w) (client_of ?w)
                   (js ''CSS Web'') (effective_limit (ToNumber ?w) (JNum 5)))
                = Inr [with_score ex_ada (JNum (2/5)), with_score ex_bob (JNum 0)]"
    by code_simp
  have tr: "trim (js ''CSS Web'') = js ''CSS Web''" by code_simp
  have now: "now ?w = ''2025-06-26''" by code_simp
  from semantic_failure_falls_back [OF h1 h2 h3 h4 h5]
  have "fst (handler ?w (post (JStr (js ''CSS Web'')) (JNum 5)))
       = \<lparr>status = 200, headers = json_headers,
          body = Some [(''success'', JBoolean True), (''query'', JText (js ''CSS Web'')),
                       (''results'', JResults [with_score ex_ada (JNum (2/5)),
                                               with_score ex_bob (JNum 0)]),
                       (''count'', JNumber 2),
                       (''timestamp'', JString ''2025-06-26'')]\<rparr>"
    unfolding tr fallback now by simp
  with h2 h4 h5 show ?thesis by blast
qed

subsection \<open>C2: short queries\<close>




subsection \<open>C8: methods and body shapes\<close>




subsection \<open>C9: the terms and the filter of the text search\<close>

text \<open>
  Claim C9 says that the text matcher splits the query on whitespace, and that the
  predicate is a substring match on name, role, description and skills.

  The code splits with \<open>split(' ')\<close>, at the space character only: in the query
  \<open>ab<TAB>cd\<close> a whitespace split finds the terms \<open>ab\<close> and \<open>cd\<close>, both too short, and so
  no predicate, while the code finds the one term \<open>ab<TAB>cd\<close> of length 5 and builds
  the filter from it.

  For the skills the code builds the condition \<open>skills.cs.{term}\<close>, where the three
  other fields get the pattern \<open>ilike.%term%\<close>: the term \<open>react\<close> occurs in the skill
  \<open>reactjs\<close>, and the skills \<open>css\<close>, \<open>reactjs\<close> do not contain \<open>react\<close> as an element.
\<close>

theorem text_predicate_counterexample:
  "searchTerms ex_lower (js ''ab'' @ [9] @ js ''cd'') = [js ''ab'' @ [9] @ js ''cd'']
   \<and> spec_whitespace_terms ex_lower (js ''ab'' @ [9] @ js ''cd'') = []
   \<and> or_filter (searchTerms ex_lower (js ''ab'' @ [9] @ js ''cd'')) \<noteq> None
   \<and> orConditions [js ''react'']
       = [js ''name.ilike.%react%'', js ''role.ilike.%react%'',
          js ''description.ilike.%react%'', js ''skills.cs.{react}'']
   \<and> spec_skills_substring_match (js ''react'') [js ''css'', js ''reactjs'']
   \<and> \<not> skills_contain (js ''react'') [js ''css'', js ''reactjs'']"
  by code_simp

text \<open>
  Claim C9, amended. For every query string, the text fallback matcher splits the
  lowercased query at each space character into terms (the pieces between the spaces:
  joined again with single spaces they give the string back, none contains a space, and
  no other list of pieces does so), keeps exactly those terms longer than 2 characters,
  and builds one OR filter from them, which is the filter of its query on \<open>members\<close>: for
  each kept term, in order, the conditions \<open>name.ilike.%term%\<close>, \<open>role.ilike.%term%\<close>,
  \<open>description.ilike.%term%\<close> (pattern match on name, role and description) and
  \<open>skills.cs.{term}\<close> (containment on skills), joined by commas; no filter is applied
  when no term is kept. A term whose length is 2 or less never contributes a predicate
  or a score increment: two queries with the same terms longer than 2 characters have
  the same outcome (filter, rows and scores).
\<close>

theorem text_search_terms:
  "join (js '' '') (split 32 s) = s
   \<and> (\<forall>p \<in> set (split 32 s). 32 \<notin> set p)
   \<and> (ps \<noteq> [] \<and> (\<forall>p \<in> set ps. 32 \<notin> set p) \<longrightarrow> split 32 (join (js '' '') ps) = ps)
   \<and> (let terms = filter (\<lambda>term. 2 < length term) (split 32 (lc query));
           f = (if terms = [] then None
                else Some (join (js '','')
                  (concat (map (\<lambda>term.
                     [js ''name.ilike.%'' @ term @ js ''%'',
                      js ''role.ilike.%'' @ term @ js ''%'',
                      js ''description.ilike.%'' @ term @ js ''%'',
                      js ''skills.cs.{'' @ term @ js ''}'']) terms))))
        in snd (performTextSearch lc sb query limit) = [SelectMembers f limit]
           \<and> (select_members sb f limit = select_members sb' f limit \<longrightarrow>
                performTextSearch lc sb query limit = performTextSearch lc sb' query limit))
   \<and> (filter (\<lambda>term. 2 < length term) (split 32 (lc query))
         = filter (\<lambda>term. 2 < length term) (split 32 (lc query')) \<longrightarrow>
       performTextSearch lc sb query limit = performTextSearch lc sb query' limit)"
proof (intro conjI)
  show "join (js '' '') (split 32 s) = s"
    unfolding js_space by (rule join_split)
  show "\<forall>p \<in> set (split 32 s). 32 \<notin> set p"
    using split_no_sep by blast
  show "ps \<noteq> [] \<and> (\<forall>p \<in> set ps. 32 \<notin> set p) \<longrightarrow> split 32 (join (js '' '') ps) = ps"
    unfolding js_space using split_join by blast
  show "let terms = filter (\<lambda>term. 2 < length term) (split 32 (lc query));
           f = (if terms = [] then None
                else Some (join (js '','')
                  (concat (map (\<lambda>term.
                     [js ''name.ilike.%'' @ term @ js ''%'',
                      js ''role.ilike.%'' @ term @ js ''%'',
                      js ''description.ilike.%'' @ term @ js ''%'',
                      js ''skills.cs.{'' @ term @ js ''}'']) terms))))
        in snd (performTextSearch lc sb query limit) = [SelectMembers f limit]
           \<and> (select_members sb f limit = select_members sb' f limit \<longrightarrow>
                performTextSearch lc sb query limit = performTextSearch lc sb' query limit)"
    unfolding Let_def or_filter_explicit [symmetric] searchTerms_def [symmetric]
    by (auto simp: performTextSearch_eq split: prod.splits option.splits)
  show "filter (\<lambda>term. 2 < length term) (split 32 (lc query))
         = filter (\<lambda>term. 2 < length term) (split 32 (lc query')) \<longrightarrow>
       performTextSearch lc sb query limit = performTextSearch lc sb query' limit"
    unfolding searchTerms_def [symmetric]
    by (auto simp: performTextSearch_eq split: prod.splits option.splits)
qed

text \<open>The query \<open>React de dev\<close>: the piece \<open>de\<close> is dropped, and the query
  \<open>React dev\<close> has the same outcome.\<close>

theorem text_search_terms_witness:
  "split 32 (js ''React de dev'') = [js ''React'', js ''de'', js ''dev'']
   \<and> join (js '' '') [js ''React'', js ''de'', js ''dev''] = js ''React de dev''
   \<and> filter (\<lambda>term. 2 < length term) (split 32 (ex_lower (js ''React de dev'')))
       = [js ''react'', js ''dev'']
   \<and> snd (performTextSearch ex_lower (ex_client ex_db) (js ''React de dev'') (Num 5))
       = [SelectMembers
            (Some (js ''name.ilike.%react%,role.ilike.%react%,description.ilike.%react%,''
                   @ js ''skills.cs.{react},name.ilike.%dev%,role.ilike.%dev%,''
                   @ js ''description.ilike.%dev%,skills.cs.{dev}'')) (Num 5)]
   \<and> performTextSearch ex_lower (ex_client ex_db) (js ''React de dev'') (Num 5)
       = performTextSearch ex_lower (ex_client ex_db) (js ''React dev'') (Num 5)"
proof -
  note facts = text_search_terms [of "js ''React de dev''" "[js ''React'', js ''de'', js ''dev'']"
      ex_lower "js ''React de dev''" "ex_client ex_db" "Num 5" "ex_client ex_db"
      "js ''React dev''"]
  have pieces: "split 32 (js ''React de dev'') = [js ''React'', js ''de'', js ''dev'']"
    by code_simp
  from facts have "join (js '' '') (split 32 (js ''React de dev'')) = js ''React de dev''"
    by blast
  then have joined: "join (js '' '') [js ''React'', js ''de'', js ''dev''] = js ''React de dev''"
    unfolding pieces .
  have terms: "filter (\<lambda>term. 2 < length term) (split 32 (ex_lower (js ''React de dev'')))
                 = [js ''react'', js ''dev'']"
    by code_simp
  have terms': "filter (\<lambda>term. 2 < length term) (split 32 (ex_lower (js ''React dev'')))
                 = [js ''react'', js ''dev'']"
    by code_simp
  have filt: "join (js '','')
      (concat (map (\<lambda>term.
         [js ''name.ilike.%'' @ term @ js ''%'', js ''role.ilike.%'' @ term @ js ''%'',
          js ''description.ilike.%'' @ term @ js ''%'', js ''skills.cs.{'' @ term @ js ''}''])
         [js ''react'', js ''dev'']))
      = js ''name.ilike.%react%,role.ilike.%react%,description.ilike.%react%,''
        @ js ''skills.cs.{react},name.ilike.%dev%,role.ilike.%dev%,''
        @ js ''description.ilike.%dev%,skills.cs.{dev}''"
    by code_simp
  from facts have
    "snd (performTextSearch ex_lower (ex_client ex_db) (js ''React de dev'') (Num 5))
       = [SelectMembers
            (if filter (\<lambda>term. 2 < length term) (split 32 (ex_lower (js ''React de dev''))) = []
             then None
             else Some (join (js '','')
               (concat (map (\<lambda>term.
                  [js ''name.ilike.%'' @ term @ js ''%'', js ''role.ilike.%'' @ term @ js ''%'',
                   js ''description.ilike.%'' @ term @ js ''%'',
                   js ''skills.cs.{'' @ term @ js ''}''])
                  (filter (\<lambda>term. 2 < length term)
                     (split 32 (ex_lower (js ''React de dev'')))))))) (Num 5)]"
    unfolding Let_def by blast
  then have call: "snd (performTextSearch ex_lower (ex_client ex_db) (js ''React de dev'') (Num 5))
       = [SelectMembers
            (Some (js ''name.ilike.%react%,role.ilike.%react%,description.ilike.%react%,''
                   @ js ''skills.cs.{react},name.ilike.%dev%,role.ilike.%dev%,''
                   @ js ''description.ilike.%dev%,skills.cs.{dev}'')) (Num 5)]"
    unfolding terms filt by simp
  from facts have
    "filter (\<lambda>term. 2 < length term) (split 32 (ex_lower (js ''React de dev'')))
       = filter (\<lambda>term. 2 < length term) (split 32 (ex_lower (js ''React dev''))) \<longrightarrow>
     performTextSearch ex_lower (ex_client ex_db) (js ''React de dev'') (Num 5)
       = performTextSearch ex_lower (ex_client ex_db) (js ''React dev'') (Num 5)"
    by blast
  then have same: "performTextSearch ex_lower (ex_client ex_db) (js ''React de dev'') (Num 5)
       = performTextSearch ex_lower (ex_client ex_db) (js ''React dev'') (Num 5)"
    unfolding terms terms' by simp
  show ?thesis
    by (intro conjI) (rule pieces joined terms call same)+
qed

subsection \<open>C10: a falsy limit\<close>

text \<open>
  Claim C10. When the \<open>limit\<close> of the body is absent, \<open>null\<close>, \<open>0\<close> or another falsy
  value, the limit in effect is 10: the handler answers as it does for \<open>limit: 10\<close>,
  and every call to \<open>match_members\<close> or to the \<open>members\<close> query carries the limit 10. In
  particular a request for \<open>limit: 0\<close> can receive results.
\<close>

theorem falsy_limit_defaults_to_ten:
  assumes "\<not> truthy l"
  shows "effective_limit tn l = Num 10
       \<and> handler w \<lparr>req_method = m, req_json = JsonBody q l\<rparr>
           = handler w \<lparr>req_method = m, req_json = JsonBody q (JNum 10)\<rparr>
       \<and> (\<forall>c \<in> set (snd (handler w \<lparr>req_method = m, req_json = JsonBody q l\<rparr>)).
             call_limit c = None \<or> call_limit c = Some (Num 10))"
proof -
  have eff: "effective_limit tn' l = Num 10" for tn'
    using assms by (simp add: effective_limit_def js_or_def)
  have eff10: "effective_limit tn' (JNum 10) = Num 10" for tn'
    by (simp add: effective_limit_def js_or_def)
  have same: "handler w \<lparr>req_method = m, req_json = JsonBody q l\<rparr>
           = handler w \<lparr>req_method = m, req_json = JsonBody q (JNum 10)\<rparr>"
    by (simp add: handler_def try_block_def eff eff10)
  have calls: "call_limit c = None \<or> call_limit c = Some (Num 10)"
    if "c \<in> set (snd (handler w \<lparr>req_method = m, req_json = JsonBody q l\<rparr>))" for c
  proof -
    let ?req = "\<lparr>req_method = m, req_json = JsonBody q l\<rparr>"
    from that have c: "c \<in> set (snd (try_block w ?req))"
      by (auto simp: handler_trace split: if_splits)
    then have "snd (try_block w ?req) \<noteq> []" by auto
    with try_block_cases [of w ?req] obtain raw where
      "try_block w ?req = run_search w (client_of w) (trim raw) (effective_limit (ToNumber w) l)"
      by auto
    with c run_search_trace_limit [of c w "client_of w" "trim raw"
                                      "effective_limit (ToNumber w) l"] eff
    show ?thesis by simp
  qed
  from eff same calls show ?thesis by blast
qed

text \<open>A request for \<open>limit: 0\<close>: \<open>match_members\<close> is called with 10 and two results
  come back.\<close>

theorem falsy_limit_defaults_to_ten_witness:
  "\<not> truthy (JNum 0)
   \<and> effective_limit ex_to_number (JNum 0) = Num 10
   \<and> handler (ex_world ex_db True)
        \<lparr>req_method = ''POST'', req_json = JsonBody (JStr (js ''React dev'')) (JNum 0)\<rparr>
       = handler (ex_world ex_db True)
           \<lparr>req_method = ''POST'', req_json = JsonBody (JStr (js ''React dev'')) (JNum 10)\<rparr>
   \<and> snd (handler (ex_world ex_db True)
            \<lparr>req_method = ''POST'', req_json = JsonBody (JStr (js ''React dev'')) (JNum 0)\<rparr>)
       = [AiRun (js ''React dev''), RpcMatchMembers ex_e1 (Num 10) (1/10)]
   \<and> lookup_field (fst (handler (ex_world ex_db True)
            \<lparr>req_method = ''POST'', req_json = JsonBody (JStr (js ''React dev'')) (JNum 0)\<rparr>))
        ''count'' = Some (JNumber 2)"
proof -
  have h: "\<not> truthy (JNum 0)" by simp
  have tr: "snd (handler (ex_world ex_db True)
            \<lparr>req_method = ''POST'', req_json = JsonBody (JStr (js ''React dev'')) (JNum 0)\<rparr>)
       = [AiRun (js ''React dev''), RpcMatchMembers ex_e1 (Num 10) (1/10)]"
    by code_simp
  have cnt: "lookup_field (fst (handler (ex_world ex_db True)
            \<lparr>req_method = ''POST'', req_json = JsonBody (JStr (js ''React dev'')) (JNum 0)\<rparr>))
        ''count'' = Some (JNumber 2)"
    by code_simp
  from falsy_limit_defaults_to_ten [OF h, of ex_to_number "ex_world ex_db True" "''POST''"
         "JStr (js ''React dev'')"]
       h tr cnt
  show ?thesis by blast
qed

subsection \<open>C3: the number of results\<close>

text \<open>
  Claim C3 says that a successful response holds at most \<open>min(requested_limit, 50)\<close>
  results, \<open>requested_limit\<close> being the limit of the request body. A request for
  \<open>limit: 0\<close> is served with the limit 10: on the deployment it receives two results,
  more than \<open>min(0, 50)\<close>.
\<close>

theorem result_count_counterexample:
  "lookup_field (fst (handler (ex_world ex_db True) (post (JStr (js ''React dev'')) (JNum 0))))
     ''results'' = Some (JResults ex_semantic_results)
   \<and> \<not> rat_of_nat (length ex_semantic_results) \<le> min 0 50"
  by code_simp

text \<open>
  Claim C3, amended. When the limit of the request body is a finite number or is falsy
  (absent, \<open>null\<close>, \<open>false\<close>, \<open>0\<close>, the empty string), a successful response holds at most
  \<open>min(L, 50)\<close> results, where \<open>L\<close> is that limit if it is a number other than 0 and 10
  otherwise, and its \<open>count\<close> field is the number of results. On the semantic path the
  bound is the \<open>LIMIT\<close> of \<open>match_members\<close>; on the text path it holds provided that the
  query on \<open>members\<close> (a service outside the repository, the parameter \<open>sel\<close>) answers
  with at most as many rows as \<open>.limit(...)\<close> asks for. Nothing is said about a limit
  that is truthy and not a finite number.
\<close>

theorem result_count_bounded:
  assumes "client_of w = db_client cdist db rpc_failure sel"
      and "\<forall>f n d. sel f (Num n) = (d, None) \<longrightarrow> rat_of_nat (length (rows_of d)) \<le> n"
      and "req_json req = JsonBody q l"
      and "js_or l (JNum 10) = JNum L"
      and "lookup_field (fst (handler w req)) ''results'' = Some (JResults rs)"
  shows "rat_of_nat (length rs) \<le> min L 50
       \<and> lookup_field (fst (handler w req)) ''count'' = Some (JNumber (length rs))"
proof -
  have eff: "effective_limit (ToNumber w) l = Num (min L 50)"
    by (simp add: effective_limit_def assms(4))
  from handler_results [OF assms(5)] assms(3) obtain raw where
    resp: "fst (handler w req) = success_response (trim raw) rs (now w)"
    and src0: "fst (performSemanticSearch (ai_run w) (client_of w) (trim raw)
                     (effective_limit (ToNumber w) l)) = Inr rs
          \<or> fst (performTextSearch (toLowerCase w) (client_of w) (trim raw)
                    (effective_limit (ToNumber w) l)) = Inr rs"
    by auto
  from src0 have src: "fst (performSemanticSearch (ai_run w) (client_of w) (trim raw)
                     (Num (min L 50))) = Inr rs
          \<or> fst (performTextSearch (toLowerCase w) (client_of w) (trim raw)
                    (Num (min L 50))) = Inr rs"
    unfolding eff .
  have sel: "select_members (client_of w) = sel"
    by (simp add: assms(1) db_client_def)
  from src have "rat_of_nat (length rs) \<le> min L 50"
  proof
    assume "fst (performSemanticSearch (ai_run w) (client_of w) (trim raw)
                   (Num (min L 50))) = Inr rs"
    then obtain v count rows where
      cnt: "sql_int (Num (min L 50)) = Inr count"
      and mm: "match_members cdist db v count (Given (1/10)) = Inr rows"
      and rs: "rs = map result_of_match rows"
      using performSemanticSearch_db_Inr unfolding assms(1) by blast
    from sql_int_Num [OF cnt] have count: "count = Given \<lfloor>min L 50\<rfloor>"
      and whole: "of_int \<lfloor>min L 50\<rfloor> = min L 50"
      by simp_all
    from match_members_length [OF mm [unfolded count]]
    have "int (length rows) \<le> \<lfloor>min L 50\<rfloor>" by simp
    then have le: "rat_of_int (int (length rows)) \<le> rat_of_int \<lfloor>min L 50\<rfloor>"
      by (simp only: of_int_le_iff)
    have "rat_of_nat (length rs) = rat_of_int (int (length rows))"
      by (simp add: rs)
    also note le
    also note whole
    finally show ?thesis .
  next
    assume "fst (performTextSearch (toLowerCase w) (client_of w) (trim raw)
                   (Num (min L 50))) = Inr rs"
    from performTextSearch_Inr [OF this] obtain d where
      d: "sel (or_filter (searchTerms (toLowerCase w) (trim raw))) (Num (min L 50)) = (d, None)"
      and rs: "rs = sort_results
                 (map (score_member (toLowerCase w) (searchTerms (toLowerCase w) (trim raw)))
                    (rows_of d))"
      unfolding sel by blast
    from assms(2) d have "rat_of_nat (length (rows_of d)) \<le> min L 50" by blast
    with rs show ?thesis by (simp add: length_sort_results)
  qed
  then show ?thesis
    by (simp add: resp lookup_count_success)
qed

text \<open>A request for one result: Bob alone comes back.\<close>

theorem result_count_bounded_witness:
  "client_of (ex_world ex_db True) = db_client ex_cdist ex_db (\<lambda>q n th. None) ex_select
   \<and> js_or (JNum 1) (JNum 10) = JNum 1
   \<and> lookup_field (fst (handler (ex_world ex_db True) (post (JStr (js ''React dev'')) (JNum 1))))
        ''results'' = Some (JResults [with_score (ex_bob\<lparr>skills := Some []\<rparr>) (JNum 1)])
   \<and> rat_of_nat (length [with_score (ex_bob\<lparr>skills := Some []\<rparr>) (JNum 1)]) \<le> min 1 50
   \<and> lookup_field (fst (handler (ex_world ex_db True) (post (JStr (js ''React dev'')) (JNum 1))))
        ''count'' = Some (JNumber 1)"
proof -
  have h1: "client_of (ex_world ex_db True) = db_client ex_cdist ex_db (\<lambda>q n th. None) ex_select"
    by (simp add: client_of_def ex_world_def ex_client_def)
  have h2: "\<forall>f n d. ex_select f (Num n) = (d, None)
              \<longrightarrow> rat_of_nat (length (rows_of d)) \<le> n"
  proof (intro allI impI)
    fix f n d assume a: "ex_select f (Num n) = (d, None)"
    then have n: "0 \<le> n" "of_int \<lfloor>n\<rfloor> = n" and d: "d = Some (take (nat \<lfloor>n\<rfloor>) ex_members)"
      by (auto simp: ex_select_def split: if_splits)
    from n(1) have floor: "0 \<le> \<lfloor>n\<rfloor>" by simp
    have "length (take (nat \<lfloor>n\<rfloor>) ex_members) \<le> nat \<lfloor>n\<rfloor>" by simp
    with floor have "int (length (take (nat \<lfloor>n\<rfloor>) ex_members)) \<le> \<lfloor>n\<rfloor>"
      by linarith
    then have le: "rat_of_int (int (length (take (nat \<lfloor>n\<rfloor>) ex_members)))
                     \<le> rat_of_int \<lfloor>n\<rfloor>"
      by (simp only: of_int_le_iff)
    have "rat_of_nat (length (rows_of d))
            = rat_of_int (int (length (take (nat \<lfloor>n\<rfloor>) ex_members)))"
      by (simp add: d rows_of_def)
    also note le
    also have "rat_of_int \<lfloor>n\<rfloor> = n" by (rule n(2))
    finally show "rat_of_nat (length (rows_of d)) \<le> n" .
  qed
  have h3: "req_json (post (JStr (js ''React dev'')) (JNum 1))
              = JsonBody (JStr (js ''React dev'')) (JNum 1)"
    by (simp add: post_def)
  have h4: "js_or (JNum 1) (JNum 10) = JNum 1"
    by (simp add: js_or_def)
  have h5: "lookup_field (fst (handler (ex_world ex_db True)
              (post (JStr (js ''React dev'')) (JNum 1))))
              ''results'' = Some (JResults [with_score (ex_bob\<lparr>skills := Some []\<rparr>) (JNum 1)])"
    by code_simp
  from result_count_bounded [OF h1 h2 h3 h4 h5] h1 h4 h5
  show ?thesis by simp
qed

subsection \<open>C5, C6, C7: a member whose embedding is the zero vector\<close>

text \<open>
  The trigger \<open>generate_member_embedding\<close> stores the zero vector for a member that is
  inserted without embedding, and \<open>update_member_embeddings\<close> counts such a member as
  still lacking an embedding. \<open>match_members\<close> only tests \<open>embedding IS NOT NULL\<close>: the
  cosine distance of a zero vector is \<open>NaN\<close>, \<open>NaN >= 0.1\<close> is true in PostgreSQL, and
  \<open>ORDER BY\<close> puts \<open>NaN\<close> last. The three theorems below run the code on the deployment
  after the insertion of Cy.

  Claim C7 (every returned member has a cosine similarity of at least \<open>t\<close>, and the
  rows are in descending order of similarity) fails there: the row of Cy is returned,
  with the \<open>match_score\<close> \<open>NaN\<close>, after the rows with the scores 1 and 3/5.
\<close>

theorem match_members_zero_vector_row:
  "generate_member_embedding ex_cy = ex_cy\<lparr>m_embedding := Some zero_vector\<rparr>
   \<and> lacks_embedding (generate_member_embedding ex_cy)
   \<and> one_minus (ex_cdist zero_vector ex_e1) = PgNaN
   \<and> match_members ex_cdist ex_db_cy ex_e1 (Given 5) (Given (1/10)) = Inr ex_rows_cy
   \<and> map id' ex_rows_cy = [2, 1, 3]
   \<and> map match_score ex_rows_cy = [JNum 1, JNum (3/5), JStr (js ''NaN'')]"
  by code_simp

text \<open>
  Claim C5 (every result list is sorted by non-increasing \<open>similarity_score\<close>) fails
  there: the semantic search returns the scores 1, 3/5 and the string \<open>NaN\<close>, and
  \<open>3/5 >= "NaN"\<close> is false.
\<close>

theorem semantic_results_zero_vector_order:
  "fst (performSemanticSearch (ai_run (ex_world ex_db_cy True)) (ex_client ex_db_cy)
          (js ''React dev'') (Num 5)) = Inr ex_semantic_results_cy
   \<and> map similarity_score ex_semantic_results_cy = [JNum 1, JNum (3/5), JStr (js ''NaN'')]"
  by code_simp

text \<open>
  Claim C6 (every \<open>similarity_score\<close> of a successful response lies in [0, 1]) fails
  there: for the query \<open>React developer\<close> with limit 5 the third result has as
  \<open>similarity_score\<close> the string \<open>NaN\<close>, which \<open>|| 0\<close> keeps, and no number.
\<close>

theorem zero_vector_score_not_a_number:
  "lookup_field (fst (handler (ex_world ex_db_cy True)
      (post (JStr (js ''React developer'')) (JNum 5)))) ''results''
     = Some (JResults ex_semantic_results_cy)
   \<and> similarity_score (ex_semantic_results_cy ! 2) = JStr (js ''NaN'')
   \<and> js_or (JStr (js ''NaN'')) (JNum 0) = JStr (js ''NaN'')"
  by code_simp

end
